theory Spec2Isabelle
  imports Main "HOL-Library.Word" "HOL-Library.Sublist"
begin

section \<open>JavaScript strings\<close>

text \<open>
  A JavaScript string is a sequence of 16-bit code units; \<open>s.length\<close> counts code
  units.  \<open>js\<close> turns an ASCII literal into such a string.
\<close>

type_synonym jsstring = "16 word list"

definition js :: "string \<Rightarrow> jsstring" where
  "js s = map (\<lambda>c. of_nat (of_char c)) s"

text \<open>
  \<open>Buffer.byteLength(s)\<close> (UTF-8, as \<open>getViewerData\<close> uses for an asset's
  \<open>parsedSize\<close>): one byte below U+0080, two below U+0800, four for a surrogate
  pair, three otherwise (a lone surrogate is encoded as U+FFFD).
\<close>

definition isHighSurrogate :: "16 word \<Rightarrow> bool" where
  "isHighSurrogate c = (0xD800 \<le> c \<and> c \<le> 0xDBFF)"

definition isLowSurrogate :: "16 word \<Rightarrow> bool" where
  "isLowSurrogate c = (0xDC00 \<le> c \<and> c \<le> 0xDFFF)"

fun byteLength :: "jsstring \<Rightarrow> nat" where
  "byteLength [] = 0"
| "byteLength [c] = (if c < 0x80 then 1 else if c < 0x800 then 2 else 3)"
| "byteLength (c # d # cs) =
     (if c < 0x80 then 1 + byteLength (d # cs)
      else if c < 0x800 then 2 + byteLength (d # cs)
      else if isHighSurrogate c \<and> isLowSurrogate d then 4 + byteLength cs
      else 3 + byteLength (d # cs))"

section \<open>The stats object\<close>

text \<open>
  The stats object that \<open>getViewerData\<close> reads: \<open>assets\<close>, \<open>children\<close>,
  \<open>chunks\<close>, \<open>modules\<close> and \<open>assetsByChunkName\<close>.  Identifiers of chunks and
  modules are numbers or strings (or missing).  An absent list is the empty list:
  \<open>_.isEmpty\<close>, \<open>_.find\<close>, \<open>_.filter\<close> and \<open>compact\<close> treat the two alike.
  A value of \<open>assetsByChunkName\<close> is a name or a list of names, \<open>flatten\<close> makes
  both a list.  The errors are the TypeError of reading a property of
  \<open>undefined\<close> and a failure of the compression function.
\<close>

datatype error = TypeError | CompressionError

datatype jsid = IdNum int | IdStr jsstring | IdUndefined

datatype statModule =
  StatModule (mid: jsid) (mname: jsstring) (msize: nat) (mchunks: "jsid list")
             (mmodules: "statModule list option") (parsedSrc: "jsstring option")

record asset =
  name :: jsstring
  asize :: nat
  achunks :: "jsid list"
  isChild :: bool

datatype chunk = Chunk (cid: jsid) (cmodules: "statModule list")

datatype stats =
  Stats (assets: "asset list") (children: "stats list") (chunks: "chunk list")
        (modules: "statModule list") (assetsByChunkName: "(jsstring \<times> jsstring list) list")

definition set_assets :: "asset list \<Rightarrow> stats \<Rightarrow> stats" where
  "set_assets as b = Stats as (children b) (chunks b) (modules b) (assetsByChunkName b)"

subsection \<open>Child builds\<close>

text \<open>
  The first branch of \<open>getViewerData\<close>: the working object becomes
  \<open>bundleStats.children[0]\<close>, and for \<open>i\<close> from 1 below \<open>children.length\<close> (the
  length of the list of the object passed in) the loop reads
  \<open>bundleStats.children[i].assets\<close>, where \<open>bundleStats\<close> is by then the first
  child.  Reading \<open>.assets\<close> of \<open>undefined\<close> throws a TypeError.
\<close>

definition setIsChild :: "asset \<Rightarrow> asset" where
  "setIsChild a = a\<lparr>isChild := True\<rparr>"

fun appendChildAssets :: "nat list \<Rightarrow> stats \<Rightarrow> error + stats" where
  "appendChildAssets [] w = Inr w"
| "appendChildAssets (i # is) w =
     (if i < length (children w)
      then appendChildAssets is
             (set_assets (assets w @ map setIsChild (assets (children w ! i))) w)
      else Inl TypeError)"

definition normalizeStats :: "stats \<Rightarrow> error + stats" where
  "normalizeStats bundleStats =
     (if assets bundleStats = [] \<and> children bundleStats \<noteq> [] then
        appendChildAssets [1 ..< length (children bundleStats)] (hd (children bundleStats))
      else if children bundleStats \<noteq> [] then
        Inr (set_assets
               (assets bundleStats @
                concat (map (\<lambda>child. map setIsChild (assets child)) (children bundleStats)))
               bundleStats)
      else Inr bundleStats)"

subsection \<open>The asset filter\<close>

text \<open>
  \<open>FILENAME_QUERY_REGEXP = /\?.*$/u\<close>: a question mark followed by code points
  that are not line terminators, up to the end of the string. \<open>replace\<close> removes the
  leftmost match.
\<close>

definition isLineTerminator :: "16 word \<Rightarrow> bool" where
  "isLineTerminator c = (c = 0x0A \<or> c = 0x0D \<or> c = 0x2028 \<or> c = 0x2029)"

fun stripQuery :: "jsstring \<Rightarrow> jsstring" where
  "stripQuery [] = []"
| "stripQuery (c # cs) =
     (if c = 0x3F \<and> list_all (\<lambda>d. \<not> isLineTerminator d) cs then []
      else c # stripQuery cs)"

text \<open>
  \<open>FILENAME_EXTENSIONS = /\.(js|mjs|gz|br)$/iu\<close>.  With the flags \<open>iu\<close> a letter
  of the pattern matches every code point with the same simple case folding: the
  letter, its capital, and for \<open>s\<close> also U+017F, for \<open>k\<close> also U+212A.
\<close>

definition ci :: "16 word \<Rightarrow> 16 word \<Rightarrow> bool" where
  "ci l c = (c = l \<or> (0x61 \<le> l \<and> l \<le> 0x7A \<and> c = l - 0x20) \<or>
             (l = 0x73 \<and> c = 0x17F) \<or> (l = 0x6B \<and> c = 0x212A))"

definition extensions :: "jsstring list" where
  "extensions = [js ''.js'', js ''.mjs'', js ''.gz'', js ''.br'']"

definition FILENAME_EXTENSIONS_test :: "jsstring \<Rightarrow> bool" where
  "FILENAME_EXTENSIONS_test s =
     list_ex (\<lambda>e. length e \<le> length s \<and> list_all2 ci e (drop (length s - length e) s))
       extensions"

text \<open>
  Modelled from the spec: \<open>createAssetsFilter\<close> (of \<open>utils\<close>, not among the
  sources).  The exclusion matchers are exact strings, regular expressions or
  predicates over the file name; an asset is included when no matcher matches it.
\<close>

datatype matcher =
  ExactString jsstring | RegExp "jsstring \<Rightarrow> bool" | Predicate "jsstring \<Rightarrow> bool"

fun matches :: "matcher \<Rightarrow> jsstring \<Rightarrow> bool" where
  "matches (ExactString p) n = (n = p)"
| "matches (RegExp r) n = r n"
| "matches (Predicate f) n = f n"

definition createAssetsFilter :: "matcher list \<Rightarrow> jsstring \<Rightarrow> bool" where
  "createAssetsFilter excludeAssets n = (\<not> list_ex (\<lambda>m. matches m n) excludeAssets)"

text \<open>
  \<open>_.filter(bundleStats.assets, asset => { asset.name = asset.name.replace(...);
  return FILENAME_EXTENSIONS.test(asset.name) && !_.isEmpty(asset.chunks) &&
  isAssetIncluded(asset.name); })\<close>
\<close>

definition stripName :: "asset \<Rightarrow> asset" where
  "stripName a = a\<lparr>name := stripQuery (name a)\<rparr>"

definition filterAssets :: "(jsstring \<Rightarrow> bool) \<Rightarrow> asset list \<Rightarrow> asset list" where
  "filterAssets isAssetIncluded as =
     filter (\<lambda>a. FILENAME_EXTENSIONS_test (name a) \<and> achunks a \<noteq> [] \<and> isAssetIncluded (name a))
       (map stripName as)"

subsection \<open>The modules of an asset\<close>

text \<open>\<open>_.uniqBy\<close>: a value is kept when its key is not among the keys seen so far.\<close>

fun uniqBy_seen :: "('a \<Rightarrow> 'k) \<Rightarrow> 'k list \<Rightarrow> 'a list \<Rightarrow> 'a list" where
  "uniqBy_seen f seen [] = []"
| "uniqBy_seen f seen (x # xs) =
     (if f x \<in> set seen then uniqBy_seen f seen xs
      else x # uniqBy_seen f (seen @ [f x]) xs)"

definition uniqBy :: "('a \<Rightarrow> 'k) \<Rightarrow> 'a list \<Rightarrow> 'a list" where
  "uniqBy f xs = uniqBy_seen f [] xs"

definition getBundleModules :: "stats \<Rightarrow> statModule list" where
  "getBundleModules bundleStats =
     uniqBy mid (concat (map cmodules (chunks bundleStats)) @ modules bundleStats)"

definition assetHasModule :: "asset \<Rightarrow> statModule \<Rightarrow> bool" where
  "assetHasModule statAsset statModule =
     list_ex (\<lambda>moduleChunk. moduleChunk \<in> set (achunks statAsset)) (mchunks statModule)"

definition getChildAssetBundles :: "stats \<Rightarrow> jsstring \<Rightarrow> stats option" where
  "getChildAssetBundles bundleStats assetName =
     find (\<lambda>c. assetName \<in> set (concat (map snd (assetsByChunkName c)))) (children bundleStats)"

definition assetModules :: "stats \<Rightarrow> asset \<Rightarrow> statModule list" where
  "assetModules bundleStats statAsset =
     (let assetBundles = (if isChild statAsset
                          then getChildAssetBundles bundleStats (name statAsset)
                          else Some bundleStats);
          ms = (case assetBundles of None \<Rightarrow> [] | Some b \<Rightarrow> getBundleModules b)
      in filter (assetHasModule statAsset) ms)"

section \<open>The composition tree\<close>

text \<open>
  A tree node is a \<open>Folder\<close>, a \<open>Module\<close> or a \<open>ConcatenatedModule\<close>.  A
  folder has its name, \<open>this.opts\<close> (\<open>None\<close> when the constructor got no second
  argument), the memo field \<open>this._gzipSize\<close> (\<open>None\<close> while it is not set) and
  its children, the object \<open>this.children\<close>, keyed by name, in insertion order.
  The compression function of \<open>opts\<close> returns \<open>None\<close> when it throws.  The
  sub-tree a \<open>ConcatenatedModule\<close> builds of its nested modules (its class is not
  among the sources) is not part of the model.
\<close>

datatype opts = Opts (compressedSize: "jsstring \<Rightarrow> nat option")

datatype tnode =
  Folder (tname: jsstring) (topts: "opts option") (gzipSize_memo: "nat option")
         (tchildren: "(jsstring \<times> tnode) list")
| Module (tname: jsstring) (data: statModule)
| ConcatenatedModule (tname: jsstring) (data: statModule)

text \<open>\<open>obj[k] = v\<close>: an existing key keeps its place, a new key goes last.\<close>

fun objSet :: "'k \<Rightarrow> 'v \<Rightarrow> ('k \<times> 'v) list \<Rightarrow> ('k \<times> 'v) list" where
  "objSet k v [] = [(k, v)]"
| "objSet k v (kv # r) = (if fst kv = k then (k, v) # r else kv # objSet k v r)"

text \<open>
  Modelled from the spec: \<open>BaseFolder\<close> (not among the sources).  \<open>getChild\<close>
  looks a name up among the children; \<open>addChildFolder\<close> and \<open>addChildModule\<close> put
  a node under its name (names are unique among the children of a node) and
  \<open>addChildFolder\<close> returns the folder; \<open>size\<close> of a folder is the sum of the sizes
  of its children, that of a module the size its stats record declares.
\<close>

definition getChild :: "jsstring \<Rightarrow> (jsstring \<times> tnode) list \<Rightarrow> tnode option" where
  "getChild k ch = map_of ch k"

definition addChild :: "tnode \<Rightarrow> (jsstring \<times> tnode) list \<Rightarrow> (jsstring \<times> tnode) list" where
  "addChild n ch = objSet (tname n) n ch"

fun tsize :: "tnode \<Rightarrow> nat" where
  "tsize (Folder n ops memo ch) = sum_list (map (\<lambda>kc. tsize (snd kc)) ch)"
| "tsize (Module n d) = msize d"
| "tsize (ConcatenatedModule n d) = msize d"

definition isFolder :: "tnode \<Rightarrow> bool" where
  "isFolder n = (case n of Folder _ _ _ _ \<Rightarrow> True | _ \<Rightarrow> False)"

text \<open>
  \<open>Folder.addModule\<close>.  \<open>walk\<close> is the \<open>folders.forEach\<close> loop followed by
  \<open>currentFolder.addChildModule(module)\<close>, on the children of the current folder:
  a child that is missing or is not a \<open>Folder\<close> is replaced by
  \<open>new Folder(folderName, this.opts)\<close>, and the walk goes on inside the child.
  A folder that is kept keeps its memo field.
  \<open>getModulePathParts\<close> (of \<open>utils\<close>, not among the sources) is a parameter;
  \<open>None\<close> is a falsy result.  With no path part at all, \<open>_.last\<close> is
  \<open>undefined\<close>, which as a key reads \<open>undefined\<close>.
\<close>

fun walk :: "opts option \<Rightarrow> jsstring list \<Rightarrow> tnode \<Rightarrow> (jsstring \<times> tnode) list
    \<Rightarrow> (jsstring \<times> tnode) list" where
  "walk ops [] module ch = addChild module ch"
| "walk ops (folderName # folders) module ch =
     (case getChild folderName ch of
        Some (Folder n o' memo c) \<Rightarrow>
          objSet folderName (Folder n o' memo (walk ops folders module c)) ch
      | _ \<Rightarrow> addChild (Folder folderName ops None (walk ops folders module [])) ch)"

definition newModule :: "jsstring \<Rightarrow> statModule \<Rightarrow> tnode" where
  "newModule fileName moduleData =
     (if mmodules moduleData \<noteq> None then ConcatenatedModule fileName moduleData
      else Module fileName moduleData)"

definition addModule :: "(statModule \<Rightarrow> jsstring list option) \<Rightarrow> tnode \<Rightarrow> statModule \<Rightarrow> tnode" where
  "addModule getModulePathParts this moduleData =
     (case getModulePathParts moduleData of
        None \<Rightarrow> this
      | Some pathParts \<Rightarrow>
          (let folders = butlast pathParts;
               fileName = (if pathParts = [] then js ''undefined'' else last pathParts)
           in Folder (tname this) (topts this) (gzipSize_memo this)
                (walk (topts this) folders (newModule fileName moduleData) (tchildren this))))"

text \<open>
  Modelled from the spec: \<open>mergeNestedFolders\<close> (of \<open>BaseFolder\<close>).  Below the
  root, a folder whose only child is a folder takes the child's children, and its name
  becomes the two names joined by a slash; this is repeated, then done in the children.
\<close>

fun mergeFolder :: "tnode \<Rightarrow> tnode" where
  "mergeFolder (Folder n ops memo [(k, Folder n' ops' memo' c')]) =
     mergeFolder (Folder (n @ js ''/'' @ n') ops memo c')"
| "mergeFolder (Folder n ops memo ch) =
     Folder n ops memo (map (\<lambda>kc. (fst kc, mergeFolder (snd kc))) ch)"
| "mergeFolder m = m"

definition mergeNestedFolders :: "tnode \<Rightarrow> tnode" where
  "mergeNestedFolders root =
     Folder (tname root) (topts root) (gzipSize_memo root)
       (map (\<lambda>kc. (fst kc, mergeFolder (snd kc))) (tchildren root))"

text \<open>
  \<open>createModulesTree\<close>: \<open>new Folder('.')\<close> has no \<open>opts\<close> and no memo.
\<close>

definition createModulesTree ::
    "(statModule \<Rightarrow> jsstring list option) \<Rightarrow> statModule list \<Rightarrow> tnode" where
  "createModulesTree getModulePathParts ms =
     mergeNestedFolders (foldl (addModule getModulePathParts) (Folder (js ''.'') None None []) ms)"

section \<open>The size getters and the projection\<close>

text \<open>
  Modelled from the spec: the getter \<open>src\<close> of \<open>BaseFolder\<close> and of the module
  classes (not among the sources).  The source text of a module is the
  \<open>parsedSrc\<close> that \<open>getViewerData\<close> stores in its stats record; the source text
  of a folder is the source texts of its children joined in their order, a child
  without source text adding nothing (\<open>src_text\<close> is \<open>node.src || ''\<close>).
\<close>

fun src_text :: "tnode \<Rightarrow> jsstring" where
  "src_text (Folder n ops memo ch) = concat (map (\<lambda>kc. src_text (snd kc)) ch)"
| "src_text (Module n d) = (case parsedSrc d of None \<Rightarrow> [] | Some s \<Rightarrow> s)"
| "src_text (ConcatenatedModule n d) = (case parsedSrc d of None \<Rightarrow> [] | Some s \<Rightarrow> s)"

definition src :: "tnode \<Rightarrow> jsstring option" where
  "src n = (case n of Folder _ _ _ _ \<Rightarrow> Some (src_text n)
            | Module _ d \<Rightarrow> parsedSrc d
            | ConcatenatedModule _ d \<Rightarrow> parsedSrc d)"

text \<open>Truthiness of \<open>this.src\<close>: \<open>undefined\<close> and the empty string are falsy.\<close>

definition truthy_src :: "jsstring option \<Rightarrow> bool" where
  "truthy_src s = (case s of None \<Rightarrow> False | Some t \<Rightarrow> t \<noteq> [])"

text \<open>
  \<open>get parsedSize() { return this.src ? this.src.length : 0; }\<close> of \<open>Folder\<close>.
  Modelled from the spec: for a module it is the same, the length of its source text
  when that is present and 0 otherwise.
\<close>

definition parsedSize :: "tnode \<Rightarrow> nat" where
  "parsedSize n = (if truthy_src (src n) then length (the (src n)) else 0)"

text \<open>
  \<open>get gzipSize()\<close> of \<open>Folder\<close>, as a function of what it reads: \<open>this.opts\<close>,
  \<open>this.src\<close> and the memo field \<open>this._gzipSize\<close>.  It gives the result (or the
  error thrown), the memo field afterwards, and the strings the compression function
  was called on during this read.  Without \<open>opts\<close>, \<open>this.opts.compressedSize\<close>
  throws a TypeError.
\<close>

definition gzipSize :: "opts option \<Rightarrow> jsstring option \<Rightarrow> nat option
    \<Rightarrow> (error + nat) \<times> nat option \<times> jsstring list" where
  "gzipSize ops s memo =
     (case memo of
        Some v \<Rightarrow> (Inr v, memo, [])
      | None \<Rightarrow>
          if truthy_src s then
            (case ops of
               None \<Rightarrow> (Inl TypeError, None, [])
             | Some o' \<Rightarrow>
                 (case compressedSize o' (the s) of
                    None \<Rightarrow> (Inl CompressionError, None, [the s])
                  | Some v \<Rightarrow> (Inr v, Some v, [the s])))
          else (Inr 0, Some 0, []))"

text \<open>
  \<open>Folder.toChartData\<close> is \<open>{...super.toChartData(), parsedSize: this.parsedSize,
  gzipSize: this.gzipSize}\<close>.  Modelled from the spec: \<open>BaseFolder.toChartData\<close>
  (not among the sources) yields the label, the \<open>statSize\<close> and the groups, the
  projections of the children in their order (\<open>path\<close> is left out).  The children
  are projected first, then \<open>parsedSize\<close> and \<open>gzipSize\<close> of the folder are read;
  an error thrown on the way ends the projection.  \<open>toChartData\<close> of the classes
  \<open>Module\<close> and \<open>ConcatenatedModule\<close> (not among the sources) is the parameter
  \<open>moduleChart\<close>, which yields the chart entry of a module (with its groups when
  it is a concatenated module) or the error it throws.
  The result is the chart entry or the error, the tree afterwards, and the strings
  the compression function of \<open>opts\<close> was called on.
\<close>

datatype chart =
  Chart (label: jsstring) (c_statSize: nat) (c_parsedSize: "nat option")
        (c_gzipSize: "nat option") (groups: "chart list")

fun toChartData :: "(tnode \<Rightarrow> error + chart) \<Rightarrow> tnode \<Rightarrow> (error + chart) \<times> tnode \<times> jsstring list"
  and toChartData_list :: "(tnode \<Rightarrow> error + chart) \<Rightarrow> (jsstring \<times> tnode) list
    \<Rightarrow> (error + chart list) \<times> (jsstring \<times> tnode) list \<times> jsstring list"
where
  "toChartData moduleChart (Folder nm ops memo ch) =
     (case toChartData_list moduleChart ch of
        (Inl e, ch', cs) \<Rightarrow> (Inl e, Folder nm ops memo ch', cs)
      | (Inr gs, ch', cs) \<Rightarrow>
          (case gzipSize ops (src (Folder nm ops memo ch')) memo of
             (Inl e, memo', cs') \<Rightarrow> (Inl e, Folder nm ops memo' ch', cs @ cs')
           | (Inr g, memo', cs') \<Rightarrow>
               (Inr (Chart nm (tsize (Folder nm ops memo' ch'))
                       (Some (parsedSize (Folder nm ops memo' ch'))) (Some g) gs),
                Folder nm ops memo' ch', cs @ cs')))"
| "toChartData moduleChart (Module nm d) = (moduleChart (Module nm d), Module nm d, [])"
| "toChartData moduleChart (ConcatenatedModule nm d) =
     (moduleChart (ConcatenatedModule nm d), ConcatenatedModule nm d, [])"
| "toChartData_list moduleChart [] = (Inr [], [], [])"
| "toChartData_list moduleChart (kc # r) =
     (case toChartData moduleChart (snd kc) of
        (Inl e, n', cs) \<Rightarrow> (Inl e, (fst kc, n') # r, cs)
      | (Inr c, n', cs) \<Rightarrow>
          (case toChartData_list moduleChart r of
             (Inl e, r', cs') \<Rightarrow> (Inl e, (fst kc, n') # r', cs @ cs')
           | (Inr gs, r', cs') \<Rightarrow> (Inr (c # gs), (fst kc, n') # r', cs @ cs')))"

section \<open>getViewerData\<close>

text \<open>
  \<open>parseBundle\<close> (of \<open>parseUtils\<close>), \<open>gzipSize.sync\<close> and
  \<open>getModulePathParts\<close> are outside the repository's sources and are parameters,
  as is \<open>moduleChart\<close>, the projection of a module.  \<open>bundleDir\<close> is \<open>None\<close> when no
  directory is given; otherwise it is the parser on the files of the directory, which
  yields the source of the asset and the source of each module, or \<open>None\<close> when it
  throws.  \<open>_.assign\<close> lets the modules of a later asset override.
\<close>

type_synonym bundleInfo = "jsstring \<times> (jsid \<Rightarrow> jsstring option)"

fun parseAssets :: "(jsstring \<Rightarrow> bundleInfo option) \<Rightarrow> asset list
    \<Rightarrow> (jsstring \<times> jsstring) list \<times> (jsid \<Rightarrow> jsstring option)
    \<Rightarrow> (jsstring \<times> jsstring) list \<times> (jsid \<Rightarrow> jsstring option)" where
  "parseAssets parseBundle [] acc = acc"
| "parseAssets parseBundle (statAsset # as) (bundlesSources, parsedModules) =
     (case parseBundle (name statAsset) of
        None \<Rightarrow> parseAssets parseBundle as (bundlesSources, parsedModules)
      | Some (s, ms) \<Rightarrow>
          parseAssets parseBundle as
            (objSet (name statAsset) s bundlesSources, parsedModules ++ ms))"

definition parseBundles :: "(jsstring \<Rightarrow> bundleInfo option) option \<Rightarrow> asset list
    \<Rightarrow> ((jsstring \<times> jsstring) list \<times> (jsid \<Rightarrow> jsstring option)) option" where
  "parseBundles bundleDir as =
     (case bundleDir of
        None \<Rightarrow> None
      | Some parseBundle \<Rightarrow>
          (let r = parseAssets parseBundle as ([], Map.empty)
           in if fst r = [] then None else Some r))"

record assetInfo =
  isize :: nat
  iparsedSize :: "nat option"
  igzipSize :: "nat option"
  imodules :: "statModule list"
  tree :: tnode

definition setParsedSrc :: "jsstring option \<Rightarrow> statModule \<Rightarrow> statModule" where
  "setParsedSrc s m = StatModule (mid m) (mname m) (msize m) (mchunks m) (mmodules m) s"

definition assetEntry ::
    "(statModule \<Rightarrow> jsstring list option) \<Rightarrow> (jsstring \<Rightarrow> nat)
     \<Rightarrow> ((jsstring \<times> jsstring) list \<times> (jsid \<Rightarrow> jsstring option)) option
     \<Rightarrow> stats \<Rightarrow> asset \<Rightarrow> assetInfo" where
  "assetEntry getModulePathParts gzipSync parsed bundleStats statAsset =
     (let source = (case parsed of None \<Rightarrow> None
                    | Some (bundlesSources, parsedModules) \<Rightarrow>
                        map_of bundlesSources (name statAsset));
          ms = (case parsed of None \<Rightarrow> assetModules bundleStats statAsset
                | Some (bundlesSources, parsedModules) \<Rightarrow>
                    map (\<lambda>m. setParsedSrc (parsedModules (mid m)) m)
                      (assetModules bundleStats statAsset))
      in \<lparr>isize = asize statAsset,
          iparsedSize = map_option byteLength source,
          igzipSize = map_option gzipSync source,
          imodules = ms,
          tree = createModulesTree getModulePathParts ms\<rparr>)"

record assetChart =
  clabel :: jsstring
  isAsset :: bool
  statSize :: nat
  cparsedSize :: "nat option"
  cgzipSize :: "nat option"
  cgroups :: "chart list"

text \<open>
  The record of one asset, with \<open>statSize: asset.tree.size || asset.size\<close> and
  \<open>groups: _.invokeMap(asset.tree.children, 'toChartData')\<close>: the children of the
  tree are projected in their order, and an error thrown by a projection is thrown by
  \<open>getViewerData\<close>.  The records are pushed in the order of the keys of
  \<open>assets\<close>.
\<close>

definition viewerRecord :: "(tnode \<Rightarrow> error + chart) \<Rightarrow> jsstring \<Rightarrow> assetInfo
    \<Rightarrow> error + assetChart" where
  "viewerRecord moduleChart filename a =
     (case toChartData_list moduleChart (tchildren (tree a)) of
        (Inl e, ch', cs) \<Rightarrow> Inl e
      | (Inr gs, ch', cs) \<Rightarrow>
          Inr \<lparr>clabel = filename,
               isAsset = True,
               statSize = (if tsize (tree a) \<noteq> 0 then tsize (tree a) else isize a),
               cparsedSize = iparsedSize a,
               cgzipSize = igzipSize a,
               cgroups = gs\<rparr>)"

fun viewerRecords :: "(tnode \<Rightarrow> error + chart) \<Rightarrow> (jsstring \<times> assetInfo) list
    \<Rightarrow> error + assetChart list" where
  "viewerRecords moduleChart [] = Inr []"
| "viewerRecords moduleChart (fa # r) =
     (case viewerRecord moduleChart (fst fa) (snd fa) of
        Inl e \<Rightarrow> Inl e
      | Inr c \<Rightarrow>
          (case viewerRecords moduleChart r of
             Inl e \<Rightarrow> Inl e
           | Inr cs \<Rightarrow> Inr (c # cs)))"

definition getViewerData ::
    "(tnode \<Rightarrow> error + chart) \<Rightarrow> (statModule \<Rightarrow> jsstring list option) \<Rightarrow> (jsstring \<Rightarrow> nat)
     \<Rightarrow> stats \<Rightarrow> (jsstring \<Rightarrow> bundleInfo option) option \<Rightarrow> matcher list
     \<Rightarrow> error + assetChart list" where
  "getViewerData moduleChart getModulePathParts gzipSync bundleStats0 bundleDir excludeAssets =
     (case normalizeStats bundleStats0 of
        Inl e \<Rightarrow> Inl e
      | Inr normalized \<Rightarrow>
          (let retained = filterAssets (createAssetsFilter excludeAssets) (assets normalized);
               bundleStats = set_assets retained normalized;
               parsed = parseBundles bundleDir retained;
               assetsObj = foldl (\<lambda>result statAsset.
                   objSet (name statAsset)
                     (assetEntry getModulePathParts gzipSync parsed bundleStats statAsset) result)
                 [] retained
           in viewerRecords moduleChart assetsObj))"

section \<open>The live-update channel\<close>

text \<open>
  \<open>getChartData\<close> of the viewer: an error of \<open>getViewerData\<close> gives \<open>null\<close>
  (\<open>None\<close>); so does a plain object without keys.  \<open>getViewerData\<close> returns an
  array, and \<open>isPlainObject\<close> (of the package \<open>is-plain-object\<close>) is false on
  arrays.
\<close>

definition isPlainObject :: "assetChart list \<Rightarrow> bool" where
  "isPlainObject chartData = False"

definition getChartData :: "error + assetChart list \<Rightarrow> assetChart list option" where
  "getChartData viewerData =
     (case viewerData of
        Inl err \<Rightarrow> None
      | Inr chartData \<Rightarrow>
          if isPlainObject chartData \<and> length chartData = 0 then None else Some chartData)"

datatype readyState = CONNECTING | OPEN | CLOSING | CLOSED

datatype message = Message (event: string) (mdata: "assetChart list")

record client =
  readyState :: readyState
  sent :: "message list"

record server =
  chartData :: "assetChart list"
  clients :: "client list"

text \<open>
  \<open>updateChartData\<close>; its argument is what \<open>getViewerData\<close> gave on the new
  stats.
\<close>

definition send :: "message \<Rightarrow> client \<Rightarrow> client" where
  "send m c = c\<lparr>sent := sent c @ [m]\<rparr>"

definition updateChartData :: "server \<Rightarrow> error + assetChart list \<Rightarrow> server" where
  "updateChartData srv viewerData =
     (case getChartData viewerData of
        None \<Rightarrow> srv
      | Some newChartData \<Rightarrow>
          srv\<lparr>chartData := newChartData,
              clients := map (\<lambda>c. if readyState c = OPEN
                                   then send (Message ''chartDataUpdated'' newChartData) c
                                   else c) (clients srv)\<rparr>)"

section \<open>Examples\<close>

text \<open>
  A path splitter in the manner of \<open>getModulePathParts\<close>: the name is split at the
  slashes and the leading \<open>.\<close> is dropped; an empty name has no parts.  A module
  projection in the manner of the spec: label, declared size, and the length of the
  source text for both other sizes.
\<close>

fun splitSlash :: "jsstring \<Rightarrow> jsstring list" where
  "splitSlash [] = [[]]"
| "splitSlash (c # cs) =
     (if c = 0x2F then [] # splitSlash cs
      else (case splitSlash cs of [] \<Rightarrow> [[c]] | p # ps \<Rightarrow> (c # p) # ps))"

definition partsOfName :: "statModule \<Rightarrow> jsstring list option" where
  "partsOfName m = (if mname m = [] then None else Some (tl (splitSlash (mname m))))"

definition moduleEntry :: "tnode \<Rightarrow> error + chart" where
  "moduleEntry n =
     Inr (Chart (tname n) (tsize n) (map_option length (src n)) (map_option length (src n)) [])"

definition modA :: statModule where
  "modA = StatModule (IdNum 1) (js ''./src/a.js'') 50 [IdNum 0] None None"

definition modB :: statModule where
  "modB = StatModule (IdNum 2) (js ''./src/b.js'') 91 [IdNum 0] None None"

definition modZ :: statModule where
  "modZ = StatModule (IdNum 3) (js ''./z.js'') 0 [IdNum 0] None None"

definition bundleJs :: asset where
  "bundleJs = \<lparr>name = js ''bundle.js'', asize = 141, achunks = [IdNum 0], isChild = False\<rparr>"

definition otherJs :: asset where
  "otherJs = \<lparr>name = js ''other.js'', asize = 7, achunks = [IdNum 1], isChild = False\<rparr>"

definition statsAB :: stats where
  "statsAB = Stats [bundleJs] [] [Chunk (IdNum 0) [modA, modB]] [modA] []"

definition statsA :: stats where
  "statsA = Stats [bundleJs] [] [Chunk (IdNum 0) [modA]] [] []"

definition statsZ :: stats where
  "statsZ = Stats [bundleJs] [] [Chunk (IdNum 0) [modZ]] [] []"

text \<open>
  Two bundle directories: the parser finds in \<open>bundle.js\<close> the source of module 1,
  the two letters \<open>ab\<close> in the first, the one letter U+00E9 in the second.
\<close>

definition sourcesOf :: "jsstring \<Rightarrow> jsid \<Rightarrow> jsstring option" where
  "sourcesOf s i = (if i = IdNum 1 then Some s else None)"

definition bundleDirAscii :: "jsstring \<Rightarrow> bundleInfo option" where
  "bundleDirAscii n = (if n = js ''bundle.js'' then Some (js ''ab'', sourcesOf (js ''ab'')) else None)"

definition bundleDirEacute :: "jsstring \<Rightarrow> bundleInfo option" where
  "bundleDirEacute n = (if n = js ''bundle.js'' then Some ([0xE9], sourcesOf [0xE9]) else None)"

definition modA_src :: "jsstring \<Rightarrow> statModule" where
  "modA_src s = StatModule (IdNum 1) (js ''./src/a.js'') 50 [IdNum 0] None (Some s)"

definition folderSrc :: "jsstring \<Rightarrow> tnode" where
  "folderSrc s =
     Folder (js ''src'') None None [(js ''a.js'', Module (js ''a.js'') (modA_src s))]"

definition infoAB :: assetInfo where
  "infoAB = assetEntry partsOfName length None statsAB bundleJs"

definition infoZ :: assetInfo where
  "infoZ = assetEntry partsOfName length None statsZ bundleJs"

definition infoNone :: assetInfo where
  "infoNone = assetEntry partsOfName length None (Stats [bundleJs] [] [] [] []) bundleJs"

section \<open>Properties of the getters\<close>

lemma byteLength_ascii: "\<forall>c\<in>set s. c < 0x80 \<Longrightarrow> byteLength s = length s"
  by (induction s rule: byteLength.induct) auto

lemma parsedSize_src_text: "parsedSize n = length (src_text n)"
  by (cases n) (auto simp: parsedSize_def src_def truthy_src_def split: option.splits)

lemma parsedSize_children:
  "parsedSize (Folder nm ops memo ch) = sum_list (map (\<lambda>kc. parsedSize (snd kc)) ch)"
  by (simp add: parsedSize_src_text length_concat comp_def)

text \<open>
  The memo of \<open>gzipSize\<close>: a read that returns calls the compression function at
  most once, and every later read returns the same value with no call, whatever
  \<open>opts\<close> and \<open>src\<close> then are.
\<close>

lemma gzipSize_memoized:
  assumes "gzipSize ops s memo = (Inr v, memo', cs)"
  shows "length cs \<le> 1" and "gzipSize ops' s' memo' = (Inr v, memo', [])"
proof -
  show "length cs \<le> 1"
    using assms by (auto simp: gzipSize_def split: option.splits if_splits)
  have "memo' = Some v"
    using assms by (auto simp: gzipSize_def split: option.splits if_splits)
  then show "gzipSize ops' s' memo' = (Inr v, memo', [])"
    by (simp add: gzipSize_def)
qed

lemmas eval_defs =
  getViewerData_def normalizeStats_def filterAssets_def createAssetsFilter_def
  stripName_def FILENAME_EXTENSIONS_test_def extensions_def ci_def js_def
  isLineTerminator_def set_assets_def parseBundles_def assetEntry_def assetModules_def
  getBundleModules_def uniqBy_def assetHasModule_def getChildAssetBundles_def
  createModulesTree_def addModule_def newModule_def mergeNestedFolders_def
  addChild_def getChild_def viewerRecord_def partsOfName_def setIsChild_def
  setParsedSrc_def moduleEntry_def gzipSize_def src_def truthy_src_def parsedSize_def

lemma parsed_ascii:
  "parseBundles (Some bundleDirAscii) [bundleJs] =
     Some ([(js ''bundle.js'', js ''ab'')], sourcesOf (js ''ab''))"
  by (simp add: parseBundles_def bundleDirAscii_def bundleJs_def js_def)

lemma parsed_eacute:
  "parseBundles (Some bundleDirEacute) [bundleJs] =
     Some ([(js ''bundle.js'', [0xE9])], sourcesOf [0xE9])"
  by (simp add: parseBundles_def bundleDirEacute_def bundleJs_def js_def)

lemma tree_with_source:
  "tree (assetEntry partsOfName gz (Some (srcs, sourcesOf s)) statsA bundleJs) =
     Folder (js ''.'') None None [(js ''src'', folderSrc s)]"
  by (simp add: statsA_def bundleJs_def modA_def folderSrc_def modA_src_def sourcesOf_def
      assetEntry_def assetModules_def getBundleModules_def uniqBy_def assetHasModule_def
      setParsedSrc_def createModulesTree_def addModule_def newModule_def
      mergeNestedFolders_def addChild_def getChild_def partsOfName_def js_def Let_def)

lemma folderSrc_src: "src (folderSrc s) = Some s"
  by (simp add: folderSrc_def modA_src_def src_def)

lemma infoAB_tree:
  "tree infoAB =
     Folder (js ''.'') None None
       [(js ''src'', Folder (js ''src'') None None
           [(js ''a.js'', Module (js ''a.js'') modA), (js ''b.js'', Module (js ''b.js'') modB)])]"
  by (simp add: infoAB_def statsAB_def bundleJs_def modA_def modB_def
      assetEntry_def assetModules_def getBundleModules_def uniqBy_def assetHasModule_def
      createModulesTree_def addModule_def newModule_def
      mergeNestedFolders_def addChild_def getChild_def partsOfName_def js_def)

definition folderAB :: tnode where
  "folderAB = Folder (js ''src'') None None
     [(js ''a.js'', Module (js ''a.js'') modA), (js ''b.js'', Module (js ''b.js'') modB)]"

text \<open>
  C1 (as the code has it).  \<open>parsedSize\<close> of a folder is \<open>src.length\<close>, the number of
  UTF-16 code units of \<open>src\<close>; that is the byte length when \<open>src\<close> is ASCII.  When
  \<open>src\<close> is absent (falsy), it is the sum of the \<open>parsedSize\<close> of the children, and
  0 when there are no children.
\<close>

theorem parsedSize_src_length:
  assumes "n = Folder nm ops memo ch"
  shows "(src n = Some s \<longrightarrow> parsedSize n = length s) \<and>
   (src n = Some s \<and> (\<forall>c\<in>set s. c < 0x80) \<longrightarrow> parsedSize n = byteLength s) \<and>
   (\<not> truthy_src (src n) \<longrightarrow> parsedSize n = sum_list (map (\<lambda>kc. parsedSize (snd kc)) ch)) \<and>
   (\<not> truthy_src (src n) \<and> ch = [] \<longrightarrow> parsedSize n = 0)"
proof -
  have 1: "src n = Some s \<longrightarrow> parsedSize n = length s"
    by (auto simp: parsedSize_def truthy_src_def)
  have 2: "src n = Some s \<and> (\<forall>c\<in>set s. c < 0x80) \<longrightarrow> parsedSize n = byteLength s"
    using 1 by (auto simp: byteLength_ascii)
  have 3: "parsedSize n = sum_list (map (\<lambda>kc. parsedSize (snd kc)) ch)"
    unfolding assms by (rule parsedSize_children)
  have 4: "\<not> truthy_src (src n) \<longrightarrow> parsedSize n = 0"
    by (simp add: parsedSize_def)
  from 1 2 3 4 show ?thesis by blast
qed

theorem parsedSize_src_length_witness:
  "tree (assetEntry partsOfName length (parseBundles (Some bundleDirAscii) [bundleJs])
      statsA bundleJs) = Folder (js ''.'') None None [(js ''src'', folderSrc (js ''ab''))] \<and>
   src (folderSrc (js ''ab'')) = Some (js ''ab'') \<and>
   parsedSize (folderSrc (js ''ab'')) = 2 \<and> byteLength (js ''ab'') = 2 \<and>
   tree infoAB = Folder (js ''.'') None None [(js ''src'', folderAB)] \<and>
   src folderAB = Some [] \<and> parsedSize folderAB = 0 \<and>
   sum_list (map (\<lambda>kc. parsedSize (snd kc)) (tchildren folderAB)) = 0"
proof -
  have f: "folderSrc (js ''ab'') =
      Folder (js ''src'') None None [(js ''a.js'', Module (js ''a.js'') (modA_src (js ''ab'')))]"
    by (simp add: folderSrc_def)
  have a: "\<forall>c\<in>set (js ''ab''). c < 0x80" by (simp add: js_def)
  have l: "length (js ''ab'') = 2" by (simp add: js_def)
  have e: "src folderAB = Some []" "\<not> truthy_src (src folderAB)"
    by (simp_all add: folderAB_def src_def truthy_src_def modA_def modB_def)
  have c: "tchildren folderAB =
      [(js ''a.js'', Module (js ''a.js'') modA), (js ''b.js'', Module (js ''b.js'') modB)]"
    by (simp add: folderAB_def)
  from parsedSize_src_length [OF f, of "js ''ab''"]
    parsedSize_src_length [OF folderAB_def, of "[]"]
    a l e c folderSrc_src [of "js ''ab''"]
  show ?thesis
    by (simp add: parsed_ascii tree_with_source infoAB_tree folderAB_def)
qed

text \<open>
  C1 as stated fails on the tree of a bundle whose module 1 has the one-letter source
  U+00E9: the folder \<open>src\<close> has \<open>parsedSize\<close> 1, and the text is two bytes long.
\<close>

theorem parsedSize_counterexample:
  "tree (assetEntry partsOfName length (parseBundles (Some bundleDirEacute) [bundleJs])
      statsA bundleJs) = Folder (js ''.'') None None [(js ''src'', folderSrc [0xE9])] \<and>
   src (folderSrc [0xE9]) = Some [0xE9] \<and>
   parsedSize (folderSrc [0xE9]) = 1 \<and> byteLength [0xE9] = 2"
  by (simp add: parsed_eacute tree_with_source folderSrc_src parsedSize_def truthy_src_def)

text \<open>
  C8, the code on the tree of a bundle whose module 1 has the source \<open>ab\<close>: the
  folder \<open>src\<close> has that source and, as every folder \<open>createModulesTree\<close> builds,
  no \<open>opts\<close>.  A read of its \<open>gzipSize\<close> throws a TypeError, calls no compression
  function and leaves the memo field unset, so every later read throws again; its
  projection throws and leaves the folder as it is, and \<open>getViewerData\<close> throws.
\<close>

theorem gzipSize_throws_without_opts:
  "tree (assetEntry partsOfName length (parseBundles (Some bundleDirAscii) [bundleJs])
      statsA bundleJs) = Folder (js ''.'') None None [(js ''src'', folderSrc (js ''ab''))] \<and>
   src (folderSrc (js ''ab'')) = Some (js ''ab'') \<and>
   topts (folderSrc (js ''ab'')) = None \<and> gzipSize_memo (folderSrc (js ''ab'')) = None \<and>
   gzipSize None (Some (js ''ab'')) None = (Inl TypeError, None, []) \<and>
   toChartData moduleEntry (folderSrc (js ''ab'')) = (Inl TypeError, folderSrc (js ''ab''), []) \<and>
   getViewerData moduleEntry partsOfName length statsA (Some bundleDirAscii) [] = Inl TypeError"
proof -
  have g: "gzipSize None (Some (js ''ab'')) None = (Inl TypeError, None, [])"
    by (simp add: gzipSize_def truthy_src_def js_def)
  have t: "toChartData moduleEntry (folderSrc (js ''ab'')) =
      (Inl TypeError, folderSrc (js ''ab''), [])"
    using g folderSrc_src [of "js ''ab''"]
    by (simp add: folderSrc_def moduleEntry_def)
  have r: "filterAssets (createAssetsFilter []) [bundleJs] = [bundleJs]"
    by (simp add: filterAssets_def createAssetsFilter_def stripName_def bundleJs_def
        FILENAME_EXTENSIONS_test_def extensions_def ci_def js_def isLineTerminator_def)
  have v: "getViewerData moduleEntry partsOfName length statsA (Some bundleDirAscii) [] =
      Inl TypeError"
    unfolding getViewerData_def
    by (simp add: normalizeStats_def statsA_def r set_assets_def parsed_ascii
        tree_with_source [unfolded statsA_def] viewerRecord_def t)
  from g t v show ?thesis
    by (simp add: parsed_ascii tree_with_source folderSrc_src) (simp add: folderSrc_def)
qed

section \<open>Properties of getViewerData\<close>

lemma infoZ_tree:
  "tree infoZ = Folder (js ''.'') None None [(js ''z.js'', Module (js ''z.js'') modZ)]"
  by (simp add: infoZ_def statsZ_def bundleJs_def modZ_def eval_defs)

lemma infoNone_tree: "tree infoNone = Folder (js ''.'') None None []"
  by (simp add: infoNone_def bundleJs_def eval_defs)

lemma filter_bundleJs: "filterAssets (createAssetsFilter []) [bundleJs] = [bundleJs]"
  by (simp add: filterAssets_def createAssetsFilter_def stripName_def bundleJs_def
      FILENAME_EXTENSIONS_test_def extensions_def ci_def js_def isLineTerminator_def)

text \<open>
  C2, the code at a stats object whose asset \<open>bundle.js\<close>, of declared size 141,
  has one module, of declared size 0: the module is matched and is in the tree, the
  aggregate size of the tree is 0, and the record of the asset carries the
  \<open>statSize\<close> 141, the declared size of the asset.
\<close>

theorem statSize_zero_size_module:
  "assetModules statsZ bundleJs = [modZ] \<and>
   tchildren (tree infoZ) = [(js ''z.js'', Module (js ''z.js'') modZ)] \<and>
   tsize (tree infoZ) = 0 \<and> asize bundleJs = 141 \<and>
   getViewerData moduleEntry partsOfName length statsZ None [] =
     Inr [\<lparr>clabel = js ''bundle.js'', isAsset = True, statSize = 141, cparsedSize = None,
           cgzipSize = None, cgroups = [Chart (js ''z.js'') 0 None None []]\<rparr>]"
proof -
  have m: "assetModules statsZ bundleJs = [modZ]"
    by (simp add: statsZ_def bundleJs_def modZ_def assetModules_def getBundleModules_def
        uniqBy_def assetHasModule_def)
  have e: "assetEntry partsOfName length None (Stats [bundleJs] [] [Chunk (IdNum 0) [modZ]] [] [])
      bundleJs = infoZ"
    by (simp add: infoZ_def statsZ_def)
  have i: "isize infoZ = 141" "iparsedSize infoZ = None" "igzipSize infoZ = None"
    by (simp_all add: infoZ_def assetEntry_def bundleJs_def Let_def)
  have n: "name bundleJs = js ''bundle.js''" by (simp add: bundleJs_def)
  have z: "msize modZ = 0" "parsedSrc modZ = None" by (simp_all add: modZ_def)
  have v: "getViewerData moduleEntry partsOfName length statsZ None [] =
     Inr [\<lparr>clabel = js ''bundle.js'', isAsset = True, statSize = 141, cparsedSize = None,
           cgzipSize = None, cgroups = [Chart (js ''z.js'') 0 None None []]\<rparr>]"
    unfolding getViewerData_def
    by (simp add: normalizeStats_def statsZ_def filter_bundleJs set_assets_def parseBundles_def
        Let_def e n viewerRecord_def infoZ_tree i moduleEntry_def src_def z)
  from m v show ?thesis
    by (simp add: infoZ_tree z) (simp add: bundleJs_def)
qed

definition childA :: stats where
  "childA = Stats [bundleJs] [] [Chunk (IdNum 0) [modA, modB]] [] []"

definition childB :: stats where
  "childB = Stats [otherJs] [] [Chunk (IdNum 1) []] [] []"

definition statsChildren :: stats where
  "statsChildren = Stats [] [childA, childB] [] [] []"

definition grandChild :: stats where
  "grandChild = Stats [otherJs\<lparr>name := js ''deep.js''\<rparr>] [] [] [] []"

definition statsGrand :: stats where
  "statsGrand =
     Stats [] [Stats [bundleJs] [grandChild, grandChild] [Chunk (IdNum 0) [modA]] [] [], childB]
       [] [] []"

text \<open>
  C3, the code at a stats object with no assets and two children, the first of which
  has no children of its own: the loop reads \<open>bundleStats.children[1]\<close> of the first
  child, which is \<open>undefined\<close>, and \<open>getViewerData\<close> throws.  When the first child
  has children of its own, it is the assets of those that are appended, not the assets
  of the second child.
\<close>

theorem normalize_children_throws:
  "assets statsChildren = [] \<and> children statsChildren = [childA, childB] \<and>
   normalizeStats statsChildren = Inl TypeError \<and>
   getViewerData moduleEntry partsOfName length statsChildren None [] = Inl TypeError \<and>
   map_sum id (\<lambda>w. map name (assets w)) (normalizeStats statsGrand) =
     Inr [js ''bundle.js'', js ''deep.js'']"
  by (simp add: statsChildren_def statsGrand_def grandChild_def childA_def childB_def
      normalizeStats_def getViewerData_def set_assets_def setIsChild_def bundleJs_def
      otherJs_def)

definition chartAB :: assetChart where
  "chartAB = \<lparr>clabel = js ''bundle.js'', isAsset = True, statSize = 141, cparsedSize = None,
              cgzipSize = None, cgroups = []\<rparr>"

definition serverAB :: server where
  "serverAB = \<lparr>chartData = [chartAB],
               clients = [\<lparr>readyState = OPEN, sent = []\<rparr>, \<lparr>readyState = CLOSED, sent = []\<rparr>]\<rparr>"

text \<open>
  C9, the code at a stats object without assets: \<open>getViewerData\<close> returns the empty
  array, \<open>getChartData\<close> passes it on (an array is not a plain object), and
  \<open>updateChartData\<close> replaces the held chart data by the empty array and sends it
  to the open client.
\<close>

theorem update_with_empty_chart_data:
  "getViewerData moduleEntry partsOfName length (Stats [] [] [] [] []) None [] = Inr [] \<and>
   getChartData (Inr []) = Some [] \<and>
   chartData serverAB = [chartAB] \<and>
   updateChartData serverAB (Inr []) =
     \<lparr>chartData = [],
      clients = [\<lparr>readyState = OPEN, sent = [Message ''chartDataUpdated'' []]\<rparr>,
                 \<lparr>readyState = CLOSED, sent = []\<rparr>]\<rparr>"
  by (simp add: getViewerData_def normalizeStats_def filterAssets_def parseBundles_def
      set_assets_def getChartData_def isPlainObject_def updateChartData_def serverAB_def
      send_def)

section \<open>Properties of the composition tree\<close>

text \<open>
  The node reached from the children of a folder along a path of names, going down
  through folders only; and the children a fresh folder gets when a module is
  inserted below it along a path.
\<close>

fun getPath :: "jsstring list \<Rightarrow> (jsstring \<times> tnode) list \<Rightarrow> tnode option" where
  "getPath [] ch = None"
| "getPath [k] ch = getChild k ch"
| "getPath (k # ks) ch =
     (case getChild k ch of Some (Folder n ops memo c) \<Rightarrow> getPath ks c | _ \<Rightarrow> None)"

fun freshPath :: "opts option \<Rightarrow> jsstring list \<Rightarrow> tnode \<Rightarrow> (jsstring \<times> tnode) list" where
  "freshPath ops [] m = [(tname m, m)]"
| "freshPath ops (g # gs) m = [(g, Folder g ops None (freshPath ops gs m))]"

fun noOpts :: "tnode \<Rightarrow> bool" where
  "noOpts (Folder n ops memo ch) = (ops = None \<and> list_all (\<lambda>kc. noOpts (snd kc)) ch)"
| "noOpts (Module n d) = True"
| "noOpts (ConcatenatedModule n d) = True"

lemma map_of_objSet: "map_of (objSet k v ch) k' = (if k' = k then Some v else map_of ch k')"
  by (induction ch) auto

lemma getChild_objSet:
  "getChild k' (objSet k v ch) = (if k' = k then Some v else getChild k' ch)"
  by (simp add: getChild_def map_of_objSet)

lemma walk_fresh: "walk ops gs m [] = freshPath ops gs m"
  by (induction gs) (simp_all add: addChild_def getChild_def)

lemma getPath_snoc_Cons:
  "getPath ((p # ps) @ [f]) ch =
     (case getChild p ch of Some (Folder n ops memo c) \<Rightarrow> getPath (ps @ [f]) c | _ \<Rightarrow> None)"
  by (cases ps) (auto split: option.splits tnode.splits)

lemma walk_replaces:
  "getPath (pre @ [f]) ch = Some l \<Longrightarrow> \<not> isFolder l \<Longrightarrow>
   getPath (pre @ [f]) (walk ops (pre @ f # fs) m ch) = Some (Folder f ops None (freshPath ops fs m))"
proof (induction pre arbitrary: ch)
  case Nil
  then show ?case
    by (cases l) (simp_all add: isFolder_def addChild_def getChild_objSet walk_fresh)
next
  case (Cons p ps)
  from Cons.prems(1) obtain n o' mm c where
    p: "getChild p ch = Some (Folder n o' mm c)" and r: "getPath (ps @ [f]) c = Some l"
    unfolding getPath_snoc_Cons by (auto split: option.splits tnode.splits)
  have "getPath (ps @ [f]) (walk ops (ps @ f # fs) m c) = Some (Folder f ops None (freshPath ops fs m))"
    by (rule Cons.IH [OF r Cons.prems(2)])
  then show ?case
    unfolding getPath_snoc_Cons by (simp add: p getChild_objSet)
qed

lemma list_all_objSet: "P (k, v) \<Longrightarrow> list_all P ch \<Longrightarrow> list_all P (objSet k v ch)"
  by (induction ch) auto

lemma getChild_list_all: "getChild k ch = Some v \<Longrightarrow> list_all P ch \<Longrightarrow> P (k, v)"
  unfolding getChild_def by (induction ch) (auto split: if_splits)

lemma noOpts_walk:
  "list_all (\<lambda>kc. noOpts (snd kc)) ch \<Longrightarrow> noOpts m \<Longrightarrow>
   list_all (\<lambda>kc. noOpts (snd kc)) (walk None fs m ch)"
proof (induction fs arbitrary: ch)
  case Nil
  then show ?case by (simp add: addChild_def list_all_objSet)
next
  case (Cons g gs)
  show ?case
  proof (cases "getChild g ch")
    case None
    have "list_all (\<lambda>kc. noOpts (snd kc)) (walk None gs m [])"
      using Cons.IH [of "[]"] Cons.prems(2) by simp
    then show ?thesis using None Cons.prems(1) by (simp add: addChild_def list_all_objSet)
  next
    case (Some x)
    show ?thesis
    proof (cases x)
      case (Folder n o' mm c)
      from getChild_list_all [OF Some Cons.prems(1)] Folder
      have o': "o' = None" and c: "list_all (\<lambda>kc. noOpts (snd kc)) c" by simp_all
      have "list_all (\<lambda>kc. noOpts (snd kc)) (walk None gs m c)"
        by (rule Cons.IH [OF c Cons.prems(2)])
      then show ?thesis using Some Folder o' Cons.prems(1) by (simp add: list_all_objSet)
    next
      case (Module n d)
      have "list_all (\<lambda>kc. noOpts (snd kc)) (walk None gs m [])"
        using Cons.IH [of "[]"] Cons.prems(2) by simp
      then show ?thesis using Some Module Cons.prems(1) by (simp add: addChild_def list_all_objSet)
    next
      case (ConcatenatedModule n d)
      have "list_all (\<lambda>kc. noOpts (snd kc)) (walk None gs m [])"
        using Cons.IH [of "[]"] Cons.prems(2) by simp
      then show ?thesis
        using Some ConcatenatedModule Cons.prems(1) by (simp add: addChild_def list_all_objSet)
    qed
  qed
qed

lemma noOpts_addModule:
  "noOpts this \<Longrightarrow> isFolder this \<Longrightarrow> noOpts (addModule gp this md)"
  by (cases this)
    (auto simp: addModule_def newModule_def isFolder_def Let_def noOpts_walk split: option.splits)

lemma isFolder_addModule: "isFolder this \<Longrightarrow> isFolder (addModule gp this md)"
  by (cases this) (auto simp: addModule_def isFolder_def Let_def split: option.splits)

lemma noOpts_foldl_addModule:
  "noOpts root \<Longrightarrow> isFolder root \<Longrightarrow>
   noOpts (foldl (addModule gp) root ms) \<and> isFolder (foldl (addModule gp) root ms)"
  by (induction ms arbitrary: root) (simp_all add: noOpts_addModule isFolder_addModule)

lemma noOpts_mergeFolder: "noOpts n \<Longrightarrow> noOpts (mergeFolder n)"
  by (induction n rule: mergeFolder.induct) (auto simp: list_all_iff)

lemma noOpts_createModulesTree: "noOpts (createModulesTree gp ms)"
proof -
  let ?r = "foldl (addModule gp) (Folder (js ''.'') None None []) ms"
  have r: "noOpts ?r \<and> isFolder ?r"
    by (rule noOpts_foldl_addModule) (simp_all add: isFolder_def)
  then obtain n ops mm ch where f: "?r = Folder n ops mm ch" by (cases ?r) (auto simp: isFolder_def)
  with r have "ops = None" "list_all (\<lambda>kc. noOpts (snd kc)) ch" by simp_all
  then show ?thesis
    unfolding createModulesTree_def mergeNestedFolders_def f
    by (auto simp: list_all_iff noOpts_mergeFolder)
qed

definition modSrc :: statModule where
  "modSrc = StatModule (IdNum 7) (js ''./src'') 5 [IdNum 0] None None"

definition rootWithLeaf :: tnode where
  "rootWithLeaf = addModule partsOfName (Folder (js ''.'') None None []) modSrc"

lemma rootWithLeaf_eq:
  "rootWithLeaf = Folder (js ''.'') None None [(js ''src'', Module (js ''src'') modSrc)]"
  by (simp add: rootWithLeaf_def addModule_def partsOfName_def modSrc_def newModule_def
      addChild_def js_def)

lemma partsOfName_modA: "partsOfName modA = Some ([] @ js ''src'' # [] @ [js ''a.js''])"
  by (simp add: partsOfName_def modA_def js_def)

text \<open>
  C7.  When a module is inserted along a path and the child found at a folder
  position of the path, below existing folders, is not a folder, then after the
  insertion that position holds a new folder of that name with the options of the
  root and no memo, whose content is only what the rest of the insertion puts there: the chain
  of new folders for the remaining segments and the new module.  Nothing of the
  previous node is kept.
\<close>

theorem addModule_replaces_leaf:
  assumes "getModulePathParts moduleData = Some (pre @ f # fs @ [fileName])"
    and "getPath (pre @ [f]) (tchildren this) = Some l"
    and "\<not> isFolder l"
  shows "getPath (pre @ [f]) (tchildren (addModule getModulePathParts this moduleData)) =
     Some (Folder f (topts this) None
             (freshPath (topts this) fs (newModule fileName moduleData)))"
proof -
  have b: "butlast (pre @ f # fs @ [fileName]) = pre @ f # fs"
    by (simp add: butlast_append)
  have "tchildren (addModule getModulePathParts this moduleData) =
      walk (topts this) (pre @ f # fs) (newModule fileName moduleData) (tchildren this)"
    unfolding addModule_def assms(1) option.case Let_def b by simp
  then show ?thesis
    using walk_replaces [OF assms(2,3)] by simp
qed

theorem addModule_replaces_leaf_witness:
  "getPath [js ''src''] (tchildren rootWithLeaf) = Some (Module (js ''src'') modSrc) \<and>
   getPath [js ''src''] (tchildren (addModule partsOfName rootWithLeaf modA)) =
     Some (Folder (js ''src'') None None [(js ''a.js'', Module (js ''a.js'') modA)])"
proof -
  have g: "getPath ([] @ [js ''src'']) (tchildren rootWithLeaf) = Some (Module (js ''src'') modSrc)"
    by (simp add: rootWithLeaf_eq getChild_def)
  have n: "\<not> isFolder (Module (js ''src'') modSrc)" by (simp add: isFolder_def)
  have m: "newModule (js ''a.js'') modA = Module (js ''a.js'') modA"
    by (simp add: newModule_def modA_def)
  have o: "topts rootWithLeaf = None" by (simp add: rootWithLeaf_eq)
  from addModule_replaces_leaf [of partsOfName modA "[]" "js ''src''" "[]" "js ''a.js''"
      rootWithLeaf "Module (js ''src'') modSrc", OF partsOfName_modA g n] g
  show ?thesis by (simp add: m o)
qed

text \<open>
  C10.  A first read of \<open>gzipSize\<close> on a folder without source text returns 0 with
  no call of the compression function and no error, whatever its \<open>opts\<close> are, also
  without any; so does a second read.  The tree \<open>createModulesTree\<close> builds has no
  \<open>opts\<close>, at the root and in every folder below it.
\<close>

theorem gzipSize_without_src:
  "(\<not> truthy_src s \<longrightarrow>
      gzipSize ops s None = (Inr 0, Some 0, []) \<and>
      gzipSize ops s (Some 0) = (Inr 0, Some 0, [])) \<and>
   topts (createModulesTree getModulePathParts ms) = None \<and>
   noOpts (createModulesTree getModulePathParts ms)"
proof -
  have "topts (createModulesTree getModulePathParts ms) = None"
    using noOpts_createModulesTree [of getModulePathParts ms]
    by (simp add: createModulesTree_def mergeNestedFolders_def)
  then show ?thesis
    by (auto simp: gzipSize_def noOpts_createModulesTree)
qed

theorem gzipSize_without_src_witness:
  "createModulesTree partsOfName [modA, modB] = Folder (js ''.'') None None [(js ''src'', folderAB)] \<and>
   topts folderAB = None \<and> src folderAB = Some [] \<and> gzipSize_memo folderAB = None \<and>
   gzipSize (topts folderAB) (src folderAB) None = (Inr 0, Some 0, []) \<and>
   gzipSize (topts folderAB) (src folderAB) (Some 0) = (Inr 0, Some 0, []) \<and>
   noOpts (createModulesTree partsOfName [modA, modB])"
proof -
  have s: "src folderAB = Some []" "\<not> truthy_src (src folderAB)"
    by (simp_all add: folderAB_def src_def truthy_src_def modA_def modB_def)
  have t: "createModulesTree partsOfName [modA, modB] =
      Folder (js ''.'') None None [(js ''src'', folderAB)]"
    by (simp add: folderAB_def modA_def modB_def createModulesTree_def addModule_def
        newModule_def mergeNestedFolders_def addChild_def getChild_def partsOfName_def js_def)
  have o: "topts folderAB = None" "gzipSize_memo folderAB = None"
    by (simp_all add: folderAB_def)
  from gzipSize_without_src [of "src folderAB" "topts folderAB" partsOfName "[modA, modB]"] s t o
  show ?thesis by simp
qed

section \<open>Properties of module matching\<close>












definition modO :: statModule where
  "modO = StatModule (IdNum 1) (js ''./o.js'') 7 [IdNum 1] None None"

definition childO :: stats where
  "childO = Stats [otherJs] [] [Chunk (IdNum 1) [modO]] [] [(js ''other'', [js ''other.js''])]"

definition statsParent :: stats where
  "statsParent =
     Stats [bundleJs, setIsChild otherJs, setIsChild (otherJs\<lparr>name := js ''lost.js''\<rparr>)]
       [childO] [Chunk (IdNum 0) [modA, modB], Chunk (IdNum 1) [modB]] [] []"

lemma getChildAssetBundles_None_iff:
  "getChildAssetBundles b n = None \<longleftrightarrow>
     (\<forall>c\<in>set (children b). \<forall>kv\<in>set (assetsByChunkName c). n \<notin> set (snd kv))"
  by (auto simp: getChildAssetBundles_def find_None_iff)

lemma getChildAssetBundles_Some:
  "getChildAssetBundles b n = Some c \<Longrightarrow>
     c \<in> set (children b) \<and> (\<exists>kv\<in>set (assetsByChunkName c). n \<in> set (snd kv))"
  by (auto simp: getChildAssetBundles_def find_Some_iff)

lemma createModulesTree_Nil: "createModulesTree gp [] = Folder (js ''.'') None None []"
  by (simp add: createModulesTree_def mergeNestedFolders_def)

text \<open>
  C6.  For an asset flagged \<open>isChild\<close>: when \<open>getChildAssetBundles\<close> finds a child
  stats object, that is a child whose \<open>assetsByChunkName\<close> has the asset's name
  among the names of some chunk, and the modules of the asset are those of the pool of
  that child that share a chunk with the asset.  It finds none exactly when no child
  has the name; then the asset has no modules, its tree is the empty root, and its
  record is made without an error, with no groups and with the asset's declared size
  as \<open>statSize\<close>.
\<close>

theorem child_asset_modules:
  assumes "isChild a"
  shows "(\<forall>c. getChildAssetBundles bundleStats (name a) = Some c \<longrightarrow>
            c \<in> set (children bundleStats) \<and>
            (\<exists>kv\<in>set (assetsByChunkName c). name a \<in> set (snd kv)) \<and>
            assetModules bundleStats a = filter (assetHasModule a) (getBundleModules c)) \<and>
         (getChildAssetBundles bundleStats (name a) = None \<longleftrightarrow>
            (\<forall>c\<in>set (children bundleStats). \<forall>kv\<in>set (assetsByChunkName c).
                name a \<notin> set (snd kv))) \<and>
         (getChildAssetBundles bundleStats (name a) = None \<longrightarrow>
            assetModules bundleStats a = [] \<and>
            imodules (assetEntry gp gz parsed bundleStats a) = [] \<and>
            tree (assetEntry gp gz parsed bundleStats a) = Folder (js ''.'') None None [] \<and>
            (\<exists>r. viewerRecord mc filename (assetEntry gp gz parsed bundleStats a) = Inr r \<and>
                 statSize r = asize a \<and> cgroups r = []))"
proof (intro conjI allI impI)
  fix c assume c: "getChildAssetBundles bundleStats (name a) = Some c"
  from getChildAssetBundles_Some [OF c]
  show "c \<in> set (children bundleStats)"
    and "\<exists>kv\<in>set (assetsByChunkName c). name a \<in> set (snd kv)" by simp_all
  show "assetModules bundleStats a = filter (assetHasModule a) (getBundleModules c)"
    using assms c by (simp add: assetModules_def)
next
  show "getChildAssetBundles bundleStats (name a) = None \<longleftrightarrow>
      (\<forall>c\<in>set (children bundleStats). \<forall>kv\<in>set (assetsByChunkName c). name a \<notin> set (snd kv))"
    by (rule getChildAssetBundles_None_iff)
next
  assume n: "getChildAssetBundles bundleStats (name a) = None"
  show m: "assetModules bundleStats a = []"
    using assms n by (simp add: assetModules_def)
  show i: "imodules (assetEntry gp gz parsed bundleStats a) = []"
    by (cases parsed) (auto simp: assetEntry_def m Let_def)
  show t: "tree (assetEntry gp gz parsed bundleStats a) = Folder (js ''.'') None None []"
    by (cases parsed) (auto simp: assetEntry_def m Let_def createModulesTree_Nil)
  have "isize (assetEntry gp gz parsed bundleStats a) = asize a"
    by (simp add: assetEntry_def Let_def)
  then show "\<exists>r. viewerRecord mc filename (assetEntry gp gz parsed bundleStats a) = Inr r \<and>
      statSize r = asize a \<and> cgroups r = []"
    unfolding viewerRecord_def by (simp add: t)
qed

theorem child_asset_modules_witness:
  "isChild (setIsChild otherJs) \<and>
   getChildAssetBundles statsParent (js ''other.js'') = Some childO \<and>
   assetModules statsParent (setIsChild otherJs) = [modO] \<and>
   getChildAssetBundles statsParent (js ''lost.js'') = None \<and>
   assetModules statsParent (setIsChild (otherJs\<lparr>name := js ''lost.js''\<rparr>)) = [] \<and>
   map_sum id statSize (viewerRecord moduleEntry (js ''lost.js'')
     (assetEntry partsOfName length None statsParent
        (setIsChild (otherJs\<lparr>name := js ''lost.js''\<rparr>)))) = Inr 7"
proof -
  have c1: "isChild (setIsChild otherJs)" by (simp add: setIsChild_def)
  have c2: "isChild (setIsChild (otherJs\<lparr>name := js ''lost.js''\<rparr>))" by (simp add: setIsChild_def)
  have n1: "name (setIsChild otherJs) = js ''other.js''"
    by (simp add: setIsChild_def otherJs_def)
  have n2: "name (setIsChild (otherJs\<lparr>name := js ''lost.js''\<rparr>)) = js ''lost.js''"
    by (simp add: setIsChild_def)
  have g1: "getChildAssetBundles statsParent (js ''other.js'') = Some childO"
    by (simp add: getChildAssetBundles_def statsParent_def childO_def js_def)
  have g2: "getChildAssetBundles statsParent (js ''lost.js'') = None"
    by (simp add: getChildAssetBundles_def statsParent_def childO_def js_def)
  have f: "filter (assetHasModule (setIsChild otherJs)) (getBundleModules childO) = [modO]"
    by (simp add: getBundleModules_def childO_def uniqBy_def assetHasModule_def modO_def
        setIsChild_def otherJs_def)
  have s: "asize (setIsChild (otherJs\<lparr>name := js ''lost.js''\<rparr>)) = 7"
    by (simp add: setIsChild_def otherJs_def)
  from child_asset_modules [OF c1, of statsParent partsOfName length None moduleEntry "js ''other.js''"]
    child_asset_modules [OF c2, of statsParent partsOfName length None moduleEntry "js ''lost.js''"]
    c1 g1 g2 f s
  show ?thesis unfolding n1 n2 by auto
qed

section \<open>Properties of the asset filter\<close>

lemma stripQuery_prefix:
  "\<exists>q. n = stripQuery n @ q \<and> (q = [] \<or> hd q = 0x3F)"
proof (induction n)
  case Nil
  show ?case by simp
next
  case (Cons c cs)
  then obtain q where q: "cs = stripQuery cs @ q" "q = [] \<or> hd q = 0x3F" by blast
  show ?case
  proof (cases "c = 0x3F \<and> list_all (\<lambda>d. \<not> isLineTerminator d) cs")
    case True
    then have "c # cs = stripQuery (c # cs) @ (c # cs) \<and> hd (c # cs) = 0x3F" by simp
    then show ?thesis by blast
  next
    case False
    then have "stripQuery (c # cs) = c # stripQuery cs" by auto
    with q have "c # cs = stripQuery (c # cs) @ q" by simp
    with q(2) show ?thesis by blast
  qed
qed

lemma stripQuery_takeWhile:
  "\<forall>c\<in>set n. \<not> isLineTerminator c \<Longrightarrow> stripQuery n = takeWhile (\<lambda>c. c \<noteq> 0x3F) n"
  by (induction n) (auto simp: list_all_iff)

lemma FILENAME_EXTENSIONS_test_iff:
  "FILENAME_EXTENSIONS_test s \<longleftrightarrow>
     (\<exists>p e. s = p @ e \<and> (\<exists>x\<in>set extensions. list_all2 ci x e))"
proof
  assume "FILENAME_EXTENSIONS_test s"
  then obtain x where x: "x \<in> set extensions" "length x \<le> length s"
      "list_all2 ci x (drop (length s - length x) s)"
    unfolding FILENAME_EXTENSIONS_test_def list_ex_iff by blast
  have "s = take (length s - length x) s @ drop (length s - length x) s" by simp
  with x(1,3) show "\<exists>p e. s = p @ e \<and> (\<exists>x\<in>set extensions. list_all2 ci x e)" by blast
next
  assume "\<exists>p e. s = p @ e \<and> (\<exists>x\<in>set extensions. list_all2 ci x e)"
  then obtain p e x where s: "s = p @ e" and x: "x \<in> set extensions" "list_all2 ci x e"
    by blast
  from x(2) have l: "length x = length e" by (rule list_all2_lengthD)
  then have "length x \<le> length s" "drop (length s - length x) s = e"
    by (simp_all add: s)
  with x show "FILENAME_EXTENSIONS_test s"
    unfolding FILENAME_EXTENSIONS_test_def list_ex_iff by auto
qed

lemma createAssetsFilter_iff:
  "createAssetsFilter excludeAssets n \<longleftrightarrow> (\<forall>m\<in>set excludeAssets. \<not> matches m n)"
  by (simp add: createAssetsFilter_def list_ex_iff)

definition assetList :: "asset list" where
  "assetList =
     [bundleJs\<lparr>name := js ''b.JS?q=1''\<rparr>,
      bundleJs\<lparr>name := js ''s.css''\<rparr>,
      bundleJs\<lparr>name := js ''e.js'', achunks := []\<rparr>,
      bundleJs\<lparr>name := js ''m.js''\<rparr>,
      bundleJs\<lparr>name := js ''v.mjs''\<rparr>]"

text \<open>
  C4.  The filter keeps, in their order and each under its stripped name, exactly the
  assets whose stripped name ends in one of the extensions \<open>.js\<close>, \<open>.mjs\<close>,
  \<open>.gz\<close>, \<open>.br\<close> up to case, whose chunks are not empty, and whose stripped
  name no exclusion matcher matches.  The stripped name is the name without a final
  part that is empty or begins with a question mark; for a name without line
  terminators it is the name up to its first question mark.
\<close>

theorem filterAssets_retained:
  "filterAssets (createAssetsFilter excludeAssets) as =
     map stripName
       (filter (\<lambda>a. (\<exists>p e. stripQuery (name a) = p @ e \<and> (\<exists>x\<in>set extensions. list_all2 ci x e)) \<and>
                     achunks a \<noteq> [] \<and>
                     (\<forall>m\<in>set excludeAssets. \<not> matches m (stripQuery (name a)))) as) \<and>
   name (stripName a) = stripQuery (name a) \<and>
   (\<exists>q. name a = stripQuery (name a) @ q \<and> (q = [] \<or> hd q = 0x3F)) \<and>
   ((\<forall>c\<in>set (name a). \<not> isLineTerminator c) \<longrightarrow>
      stripQuery (name a) = takeWhile (\<lambda>c. c \<noteq> 0x3F) (name a))"
proof -
  have "filterAssets (createAssetsFilter excludeAssets) as =
     map stripName
       (filter (\<lambda>a. FILENAME_EXTENSIONS_test (stripQuery (name a)) \<and> achunks a \<noteq> [] \<and>
                     createAssetsFilter excludeAssets (stripQuery (name a))) as)"
    by (simp add: filterAssets_def filter_map comp_def stripName_def)
  then show ?thesis
    unfolding FILENAME_EXTENSIONS_test_iff createAssetsFilter_iff
    using stripQuery_prefix [of "name a"]
    by (simp add: stripName_def stripQuery_takeWhile)
qed

theorem filterAssets_retained_witness:
  "filterAssets (createAssetsFilter [ExactString (js ''m.js'')]) assetList =
     [bundleJs\<lparr>name := js ''b.JS''\<rparr>, bundleJs\<lparr>name := js ''v.mjs''\<rparr>] \<and>
   stripQuery (js ''b.JS?q=1'') = js ''b.JS''"
proof -
  have "filterAssets (createAssetsFilter [ExactString (js ''m.js'')]) assetList =
     map stripName
       (filter (\<lambda>a. FILENAME_EXTENSIONS_test (stripQuery (name a)) \<and> achunks a \<noteq> [] \<and>
                     createAssetsFilter [ExactString (js ''m.js'')] (stripQuery (name a)))
          assetList)"
    using filterAssets_retained [of "[ExactString (js ''m.js'')]" assetList bundleJs]
    unfolding FILENAME_EXTENSIONS_test_iff createAssetsFilter_iff by blast
  then show ?thesis
    by (simp add: assetList_def bundleJs_def stripName_def FILENAME_EXTENSIONS_test_def
        extensions_def createAssetsFilter_def ci_def js_def isLineTerminator_def)
qed

end

